theory Spec2Isabelle
  imports Complex_Main "HOL-Library.Multiset" "HOL-Library.Log_Nat"
begin

section \<open>Data model\<close>

text \<open>
  Documents of the three collections, as the Mongoose schemas declare them. An ObjectId
  is a natural number; enumerated string fields stay strings, since the controllers
  compare them with string literals. Only the fields that a controller reads, writes
  or compares are kept: the free-text fields (name, company, phone, email, address,
  notes) and the update timestamps are not part of the model.
\<close>

type_synonym objid = nat

record user =
  u_id :: objid
  role :: string

record lead =
  l_id :: objid
  source :: string
  status :: string
  createdBy :: objid
  lastModifiedBy :: objid

record call =
  c_id :: objid
  c_lead :: objid
  c_user :: objid
  c_status :: string
  duration :: int
  connectedResponse :: "string option"
  notConnectedReason :: "string option"
  c_createdAt :: int

record store =
  leads :: "lead list"
  calls :: "call list"
  users :: "user list"

text \<open>The enum lists of \<open>LeadSchema\<close> and \<open>CallSchema\<close>.\<close>

definition lead_statuses :: "string list" where
  "lead_statuses = [''new'', ''contacted'', ''qualified'', ''proposal'', ''converted'', ''lost'']"

definition lead_sources :: "string list" where
  "lead_sources = [''website'', ''referral'', ''social'', ''direct'', ''other'']"

definition call_statuses :: "string list" where
  "call_statuses = [''connected'', ''not_connected'']"

definition connected_responses :: "string list" where
  "connected_responses = [''discussed'', ''callback'', ''interested'']"

definition not_connected_reasons :: "string list" where
  "not_connected_reasons = [''busy'', ''rnr'', ''switched_off'']"

text \<open>
  The position of a status in the schema's enum list is its stage; a string that is
  not in the list gets the length of the list.
\<close>

fun index_of :: "'a \<Rightarrow> 'a list \<Rightarrow> nat" where
  "index_of x [] = 0"
| "index_of x (y # ys) = (if x = y then 0 else Suc (index_of x ys))"

definition stage :: "string \<Rightarrow> nat" where
  "stage st = index_of st lead_statuses"

section \<open>The store's operations\<close>

text \<open>
  Every call into the store can throw (the connection is lost, a validator rejects a
  field the model does not carry). Which calls throw is an input: one flag for each
  call site of \<open>createCall\<close> and of the other controllers.
\<close>

record faults =
  findById_throws :: bool
  create_throws :: bool
  findByIdAndUpdate_throws :: bool
  populate_throws :: bool
  save_throws :: bool
  find_throws :: bool
  count_throws :: bool
  aggregate_throws :: bool

definition no_faults :: faults where
  "no_faults = \<lparr>findById_throws = False, create_throws = False,
     findByIdAndUpdate_throws = False, populate_throws = False, save_throws = False,
     find_throws = False, count_throws = False, aggregate_throws = False\<rparr>"

text \<open>
  What the environment supplies besides the faults: the clock (milliseconds since the
  epoch), the two functions by which the runtime converts between UTC and the server's
  local time (\<open>LocalTime\<close> and \<open>UTC\<close> of ECMA-262, whatever the zone and its
  daylight saving rules), and the ObjectId the driver generates for the next document.
\<close>

record env =
  flt :: faults
  now :: int
  LocalTime :: "int \<Rightarrow> int"
  UTC :: "int \<Rightarrow> int"
  new_id :: objid

text \<open>\<open>Lead.findById\<close>: the first document with the id, or null.\<close>

definition findById :: "objid \<Rightarrow> lead list \<Rightarrow> lead option" where
  "findById i ls = find (\<lambda>l. l_id l = i) ls"

text \<open>An update of one document: the first one with the id is replaced.\<close>

fun update_first :: "objid \<Rightarrow> (lead \<Rightarrow> lead) \<Rightarrow> lead list \<Rightarrow> lead list" where
  "update_first i f [] = []"
| "update_first i f (l # ls) = (if l_id l = i then f l # ls else l # update_first i f ls)"

section \<open>Responses\<close>

text \<open>
  \<open>res.status(code).json(...)\<close>: \<open>Success\<close> is \<open>{success: true, data}\<close>,
  \<open>Failure\<close> is \<open>{success: false, message}\<close> and \<open>BadRequest\<close> is status 400 with
  \<open>{success: false, errors}\<close>.
\<close>

datatype 'a response = Success nat 'a | Failure nat string | BadRequest "string list"

section \<open>createCall\<close>

text \<open>
  The request body of \<open>POST /api/calls\<close> after destructuring. A field that is absent
  is \<open>None\<close>; the controller tests \<open>connectedResponse\<close> and \<open>notConnectedReason\<close>
  for truthiness, and the empty string is falsy.
\<close>

record call_body =
  b_lead :: objid
  b_status :: string
  b_duration :: "int option"
  b_connectedResponse :: "string option"
  b_notConnectedReason :: "string option"

definition truthy :: "string option \<Rightarrow> bool" where
  "truthy v = (case v of None \<Rightarrow> False | Some s \<Rightarrow> s \<noteq> [])"

text \<open>\<open>duration || 0\<close>\<close>

definition duration_or_0 :: "int option \<Rightarrow> int" where
  "duration_or_0 d = (case d of None \<Rightarrow> 0 | Some n \<Rightarrow> if n = 0 then 0 else n)"

text \<open>Lines 27 to 39 of the controller: the document handed to \<open>Call.create\<close>.\<close>

definition callData :: "env \<Rightarrow> user \<Rightarrow> call_body \<Rightarrow> call" where
  "callData e u b =
     (let d = \<lparr>c_id = new_id e, c_lead = b_lead b, c_user = u_id u, c_status = b_status b,
                duration = duration_or_0 (b_duration b),
                connectedResponse = None, notConnectedReason = None,
                c_createdAt = now e\<rparr>
      in if b_status b = ''connected'' \<and> truthy (b_connectedResponse b)
         then d\<lparr>connectedResponse := b_connectedResponse b\<rparr>
         else if b_status b = ''not_connected'' \<and> truthy (b_notConnectedReason b)
         then d\<lparr>notConnectedReason := b_notConnectedReason b\<rparr>
         else d)"

text \<open>
  The validators of \<open>CallSchema\<close>, which \<open>Call.create\<close> runs: the status is one of
  the enum; a conditional field that is set is one of its enum and passes its custom
  validator. Mongoose runs no validator on a path that is undefined unless the path
  is required, so a conditional field that is absent passes.
\<close>

definition CallSchema_valid :: "call \<Rightarrow> bool" where
  "CallSchema_valid c =
     (c_status c \<in> set call_statuses \<and>
      (case connectedResponse c of None \<Rightarrow> True
       | Some v \<Rightarrow> v \<in> set connected_responses \<and> (if c_status c = ''connected'' then v \<noteq> [] else True)) \<and>
      (case notConnectedReason c of None \<Rightarrow> True
       | Some v \<Rightarrow> v \<in> set not_connected_reasons \<and> (if c_status c = ''not_connected'' then v \<noteq> [] else True)))"

text \<open>\<open>Call.create\<close>: \<open>None\<close> when it throws, else the store with the call appended.\<close>

definition Call_create :: "env \<Rightarrow> call \<Rightarrow> store \<Rightarrow> store option" where
  "Call_create e c s =
     (if create_throws (flt e) \<or> \<not> CallSchema_valid c then None
      else Some (s\<lparr>calls := calls s @ [c]\<rparr>))"

text \<open>\<open>Lead.findByIdAndUpdate(leadId, { status: 'contacted' })\<close>\<close>

definition Lead_findByIdAndUpdate_status :: "env \<Rightarrow> objid \<Rightarrow> string \<Rightarrow> store \<Rightarrow> store option" where
  "Lead_findByIdAndUpdate_status e i st s =
     (if findByIdAndUpdate_throws (flt e) then None
      else Some (s\<lparr>leads := update_first i (\<lambda>l. l\<lparr>status := st\<rparr>) (leads s)\<rparr>))"

text \<open>
  \<open>lead.save()\<close> after the assignments of lines 61 and 62: the stored document with
  the id of the one in memory gets its status and its lastModifiedBy.
\<close>

definition Lead_save :: "env \<Rightarrow> lead \<Rightarrow> store \<Rightarrow> store option" where
  "Lead_save e l s =
     (if save_throws (flt e) \<or> status l \<notin> set lead_statuses then None
      else Some (s\<lparr>leads := update_first (l_id l)
                   (\<lambda>d. d\<lparr>status := status l, lastModifiedBy := lastModifiedBy l\<rparr>) (leads s)\<rparr>))"

text \<open>Lines 53 to 58: the status the connected branch computes from the lead in memory.\<close>

definition newStatus :: "string \<Rightarrow> string option \<Rightarrow> string" where
  "newStatus cur resp =
     (let n = cur;
          n = (if cur = ''new'' then ''contacted'' else n);
          n = (if resp = Some ''interested'' \<and> cur \<in> set [''new'', ''contacted''] then ''qualified'' else n)
      in n)"

abbreviation server_error :: "'a response" where
  "server_error \<equiv> Failure 500 ''Server error''"

text \<open>
  The controller. \<open>errs\<close> is \<open>validationResult(req)\<close>, which the route's validators
  have filled before the controller runs. The \<open>catch\<close> block answers 500 and leaves
  the store as the last completed write left it.
\<close>

definition createCall :: "env \<Rightarrow> store \<Rightarrow> user \<Rightarrow> string list \<Rightarrow> call_body \<Rightarrow> call response \<times> store" where
  "createCall e s u errs b =
     (if errs \<noteq> [] then (BadRequest errs, s)
      else if findById_throws (flt e) then (server_error, s)
      else (case findById (b_lead b) (leads s) of
        None \<Rightarrow> (Failure 404 ''Lead not found'', s)
      | Some lead \<Rightarrow>
          (if role u = ''telecaller'' \<and> createdBy lead \<noteq> u_id u
           then (Failure 403 ''Not authorized to log calls for this lead'', s)
           else (let c = callData e u b in
            (case Call_create e c s of
              None \<Rightarrow> (server_error, s)
            | Some s1 \<Rightarrow>
                (case (if status lead = ''new''
                       then Lead_findByIdAndUpdate_status e (b_lead b) ''contacted'' s1
                       else Some s1) of
                   None \<Rightarrow> (server_error, s1)
                 | Some s2 \<Rightarrow>
                     (if populate_throws (flt e) then (server_error, s2)
                      else if b_status b = ''connected'' then
                        (let n = newStatus (status lead) (b_connectedResponse b) in
                         (if n \<noteq> status lead then
                           (case Lead_save e (lead\<lparr>status := n, lastModifiedBy := u_id u\<rparr>) s2 of
                              None \<Rightarrow> (server_error, s2)
                            | Some s3 \<Rightarrow> (Success 201 c, s3))
                          else (Success 201 c, s2)))
                      else (Success 201 c, s2))))))))"

text \<open>
  The discipline of the two conditional fields of a call: each is set only under its
  own status, and never both.
\<close>

definition conditional_fields_ok :: "call \<Rightarrow> bool" where
  "conditional_fields_ok c =
     ((connectedResponse c \<noteq> None \<longrightarrow> c_status c = ''connected'') \<and>
      (notConnectedReason c \<noteq> None \<longrightarrow> c_status c = ''not_connected'') \<and>
      \<not> (connectedResponse c \<noteq> None \<and> notConnectedReason c \<noteq> None))"

section \<open>updateLead\<close>

text \<open>A JSON value, for the parts of a request body that the controller passes on unread.\<close>

datatype json = JString string | JNumber int | JBool bool | JNull
  | JArray "json list" | JObject "(string \<times> json) list"

text \<open>
  The body of \<open>PUT /api/leads/:id\<close>. The controller spreads it unfiltered into the
  update document and then sets \<open>lastModifiedBy\<close>. Its top-level keys are of three
  kinds:
  \<^item> the schema paths of the model, \<open>None\<close> when absent;
  \<^item> update operators, the keys that start with \<open>$\<close> (\<open>$set\<close>, \<open>$unset\<close>,
    \<open>$rename\<close>, ...), kept with their arguments in \<open>ub_operators\<close>;
  \<^item> other plain keys. Mongoose turns a plain key into a \<open>$set\<close> of that one path, or
    drops it when the schema does not know the path, so such a key touches no field
    of the model; the most it does is make the update throw (a validator of the
    path), which the flag \<open>findByIdAndUpdate_throws\<close> stands for. They are left out.
\<close>

record lead_body =
  ub_source :: "string option"
  ub_status :: "string option"
  ub_createdBy :: "objid option"
  ub_lastModifiedBy :: "objid option"
  ub_operators :: "(string \<times> json) list"

text \<open>\<open>$set\<close> of the plain fields an update carries.\<close>

definition apply_update :: "lead_body \<Rightarrow> lead \<Rightarrow> lead" where
  "apply_update d l =
     l\<lparr>source := (case ub_source d of None \<Rightarrow> source l | Some v \<Rightarrow> v),
       status := (case ub_status d of None \<Rightarrow> status l | Some v \<Rightarrow> v),
       createdBy := (case ub_createdBy d of None \<Rightarrow> createdBy l | Some v \<Rightarrow> v),
       lastModifiedBy := (case ub_lastModifiedBy d of None \<Rightarrow> lastModifiedBy l | Some v \<Rightarrow> v)\<rparr>"

text \<open>\<open>runValidators: true\<close>: the enum validators of the paths the update sets.\<close>

definition update_valid :: "lead_body \<Rightarrow> bool" where
  "update_valid d =
     ((case ub_source d of None \<Rightarrow> True | Some v \<Rightarrow> v \<in> set lead_sources) \<and>
      (case ub_status d of None \<Rightarrow> True | Some v \<Rightarrow> v \<in> set lead_statuses))"

text \<open>
  \<open>Lead.findByIdAndUpdate(id, updateData, {new: true, runValidators: true})\<close>:
  \<open>None\<close> when it throws, else the document after the update (null when there is
  none with the id) and the new store. What an update document with operators does
  to a lead is the store's affair and a parameter here: \<open>ops d l\<close> is the lead after
  the update \<open>d\<close>, or \<open>None\<close> when the update throws. An operator can write any
  path, \<open>createdBy\<close> included.
\<close>

definition Lead_findByIdAndUpdate :: "env \<Rightarrow> (lead_body \<Rightarrow> lead \<Rightarrow> lead option) \<Rightarrow> objid \<Rightarrow> lead_body \<Rightarrow> store \<Rightarrow> (lead option \<times> store) option" where
  "Lead_findByIdAndUpdate e ops i d s =
     (if findByIdAndUpdate_throws (flt e) then None
      else if ub_operators d = [] then
        (if \<not> update_valid d then None
         else Some (map_option (apply_update d) (findById i (leads s)),
                    s\<lparr>leads := update_first i (apply_update d) (leads s)\<rparr>))
      else (case findById i (leads s) of
              None \<Rightarrow> Some (None, s)
            | Some l \<Rightarrow>
                (case ops d l of
                   None \<Rightarrow> None
                 | Some l' \<Rightarrow> Some (Some l', s\<lparr>leads := update_first i (\<lambda>_. l') (leads s)\<rparr>))))"

definition updateLead :: "env \<Rightarrow> (lead_body \<Rightarrow> lead \<Rightarrow> lead option) \<Rightarrow> store \<Rightarrow> user \<Rightarrow> string list \<Rightarrow> objid \<Rightarrow> lead_body \<Rightarrow> lead option response \<times> store" where
  "updateLead e ops s u errs i b =
     (if errs \<noteq> [] then (BadRequest errs, s)
      else if findById_throws (flt e) then (server_error, s)
      else (case findById i (leads s) of
        None \<Rightarrow> (Failure 404 ''Lead not found'', s)
      | Some lead \<Rightarrow>
          (if role u = ''telecaller'' \<and> createdBy lead \<noteq> u_id u
           then (Failure 403 ''Not authorized'', s)
           else (let updateData = b\<lparr>ub_lastModifiedBy := Some (u_id u)\<rparr> in
             (case Lead_findByIdAndUpdate e ops i updateData s of
                None \<Rightarrow> (server_error, s)
              | Some (doc, s1) \<Rightarrow> (Success 200 doc, s1))))))"

section \<open>getLeads\<close>


text \<open>\<open>parseInt(v) || d\<close>\<close>

definition parseInt_or :: "int option \<Rightarrow> int \<Rightarrow> int" where
  "parseInt_or v d = (case v of None \<Rightarrow> d | Some n \<Rightarrow> if n = 0 then d else n)"




section \<open>getCallTrends\<close>

text \<open>
  Instants are milliseconds since the epoch. The time value of a \<open>Date\<close> is
  \<open>Some t\<close>, or \<open>None\<close> for NaN (an invalid date); \<open>TimeClip\<close> is the range
  check every setter ends with. A date string \<open>YYYY-MM-DD\<close>, as \<open>toISOString\<close>
  and \<open>$dateToString\<close> give it, is the number of the UTC day; two such strings are
  equal, or in order, as their day numbers are.
\<close>

definition DAY :: int where
  "DAY = 86400000"

definition utc_day :: "int \<Rightarrow> int" where
  "utc_day t = t div DAY"

definition TimeClip :: "int \<Rightarrow> int option" where
  "TimeClip t = (if \<bar>t\<bar> \<le> 8640000000000000 then Some t else None)"

text \<open>
  \<open>d.setDate(d.getDate() + k)\<close>: the local day moves by \<open>k\<close>, the local time of
  day stays, and the result goes back to UTC.
\<close>

definition addDays :: "env \<Rightarrow> int option \<Rightarrow> int \<Rightarrow> int option" where
  "addDays e d k =
     (case d of None \<Rightarrow> None
      | Some t \<Rightarrow> (let l = LocalTime e t
                   in TimeClip (UTC e ((l div DAY + k) * DAY + l mod DAY))))"

text \<open>\<open>d.setHours(0, 0, 0, 0)\<close>: local midnight of the local day.\<close>

definition setHours0 :: "env \<Rightarrow> int option \<Rightarrow> int option" where
  "setHours0 e d =
     (case d of None \<Rightarrow> None
      | Some t \<Rightarrow> TimeClip (UTC e (LocalTime e t div DAY * DAY)))"

text \<open>Lines 136 to 138.\<close>

definition startDate :: "env \<Rightarrow> int \<Rightarrow> int option" where
  "startDate e days = setHours0 e (addDays e (Some (now e)) (- days + 1))"

text \<open>A JSON object is the list of its keys and values, in order.\<close>

datatype jvalue = JDate int | JNum nat

type_synonym jobject = "(string \<times> jvalue) list"

text \<open>
  The pipeline of lines 145 to 157, for a valid start: \<open>$match\<close>, \<open>$group\<close> by UTC
  day, \<open>$sort\<close>.
\<close>

definition trends_match :: "env \<Rightarrow> user \<Rightarrow> int \<Rightarrow> call \<Rightarrow> bool" where
  "trends_match e u start c =
     (start \<le> c_createdAt c \<and> c_createdAt c \<le> now e \<and>
      (role u = ''telecaller'' \<longrightarrow> c_user c = u_id u))"

definition trend_group :: "call list \<Rightarrow> int \<Rightarrow> jobject" where
  "trend_group cs d =
     [(''_id'', JDate d),
      (''count'', JNum (length [c \<leftarrow> cs. utc_day (c_createdAt c) = d])),
      (''connected'', JNum (length [c \<leftarrow> cs. utc_day (c_createdAt c) = d \<and> c_status c = ''connected'']))]"

definition callTrends :: "env \<Rightarrow> user \<Rightarrow> int \<Rightarrow> call list \<Rightarrow> jobject list" where
  "callTrends e u start cs =
     (let m = filter (trends_match e u start) cs
      in map (trend_group m) (sort (remdups (map (\<lambda>c. utc_day (c_createdAt c)) m))))"

text \<open>
  The body of the loop of lines 160 to 167, for one \<open>i\<close>. \<open>toISOString\<close> throws a
  RangeError on an invalid date: that is \<open>None\<close>.
\<close>

definition trend_bucket :: "env \<Rightarrow> int option \<Rightarrow> jobject list \<Rightarrow> nat \<Rightarrow> jobject option" where
  "trend_bucket e start trends i =
     (case addDays e start (int i) of
        None \<Rightarrow> None
      | Some t \<Rightarrow>
          (let dateStr = utc_day t
           in Some (case find (\<lambda>item. map_of item ''_id'' = Some (JDate dateStr)) trends of
                      Some existing \<Rightarrow> existing
                    | None \<Rightarrow> [(''date'', JDate dateStr), (''count'', JNum 0), (''connected'', JNum 0)])))"

text \<open>
  \<open>q_days\<close> is \<open>parseInt(req.query.days, 10)\<close>. When the start is an invalid date
  (\<open>days\<close> beyond the range of \<open>Date\<close>) and the loop runs, its first
  \<open>toISOString\<close> throws, if the aggregation has not thrown before; when the loop
  does not run, the result is empty unless the aggregation throws. With a valid start,
  the first bucket whose date is invalid ends the request with 500.
\<close>

definition getCallTrends :: "env \<Rightarrow> store \<Rightarrow> user \<Rightarrow> int option \<Rightarrow> jobject list response" where
  "getCallTrends e s u q_days =
     (let days = parseInt_or q_days 7
      in case startDate e days of
           None \<Rightarrow> (if aggregate_throws (flt e) \<or> 0 < days then server_error else Success 200 [])
         | Some start \<Rightarrow>
             (if aggregate_throws (flt e) then server_error
              else (case those (map (trend_bucket e (Some start) (callTrends e u start (calls s)))
                                 [0..<nat days]) of
                      None \<Rightarrow> server_error
                    | Some result \<Rightarrow> Success 200 result)))"

section \<open>getDashboardStats\<close>

text \<open>
  A JavaScript number is an IEEE 754 binary64 value; a finite one is modelled by the
  rational it denotes. \<open>fl\<close> rounds a rational to the nearest binary64 value, ties
  to the even significand: with \<open>2 ^ e \<le> x < 2 ^ (e + 1)\<close> the spacing of the
  values around \<open>x\<close> is \<open>2 ^ (e - 52)\<close>. Overflow and subnormal values are left
  out; quotients of counts below \<open>2 ^ 53\<close> and their products with 100 are far
  from both.
\<close>

definition round_half_even :: "rat \<Rightarrow> int" where
  "round_half_even m =
     (let f = \<lfloor>m\<rfloor>; d = m - of_int f
      in if d < 1 / 2 then f else if 1 / 2 < d then f + 1 else if even f then f else f + 1)"

definition binade :: "rat \<Rightarrow> int" where
  "binade x = (let (a, b) = quotient_of x; d = bitlen a - bitlen b
               in if 2 powi d \<le> x then d else d - 1)"

definition fl :: "rat \<Rightarrow> rat" where
  "fl x = (if x = 0 then 0
           else if x < 0
           then - (let u = 2 powi (binade (- x) - 52) in of_int (round_half_even (- x / u)) * u)
           else (let u = 2 powi (binade x - 52) in of_int (round_half_even (x / u)) * u))"

text \<open>The operators \<open>/\<close> and \<open>*\<close> on numbers.\<close>

definition js_div :: "rat \<Rightarrow> rat \<Rightarrow> rat" where
  "js_div a b = fl (a / b)"

definition js_mul :: "rat \<Rightarrow> rat \<Rightarrow> rat" where
  "js_mul a b = fl (a * b)"

text \<open>The decimal digits of a natural number.\<close>

definition digit :: "nat \<Rightarrow> char" where
  "digit d = ''0123456789'' ! d"

fun dec :: "nat \<Rightarrow> string" where
  [simp del]: "dec n = (if n < 10 then [digit n] else dec (n div 10) @ [digit (n mod 10)])"

text \<open>
  \<open>Number.prototype.toFixed(f)\<close> as ECMA-262 gives it, for a finite number below
  \<open>10 ^ 21\<close> in absolute value: \<open>n\<close> is the integer for which \<open>n / 10 ^ f\<close> is
  closest to the number, the larger one of two; its digits are padded with zeros on
  the left to \<open>f + 1\<close> digits, and the point goes before the last \<open>f\<close>.
\<close>

definition toFixed :: "rat \<Rightarrow> nat \<Rightarrow> string" where
  "toFixed x f =
     (let s = (if x < 0 then ''-'' else []);
          n = nat \<lfloor>\<bar>x\<bar> * 10 ^ f + 1 / 2\<rfloor>;
          m = dec n
      in if f \<noteq> 0
         then (let k = length m;
                   m = (if k \<le> f then replicate (f + 1 - k) (CHR ''0'') @ m else m);
                   k = length m
               in s @ take (k - f) m @ ''.'' @ drop (k - f) m)
         else s @ m)"

record dashboard =
  totalLeads :: nat
  totalCalls :: nat
  connectedCalls :: nat
  connectionRate :: string
  totalTelecallers :: nat

definition getDashboardStats :: "env \<Rightarrow> store \<Rightarrow> user \<Rightarrow> dashboard response" where
  "getDashboardStats e s u =
     (let query = (\<lambda>l. role u = ''telecaller'' \<longrightarrow> createdBy l = u_id u);
          callQuery = (\<lambda>c. role u = ''telecaller'' \<longrightarrow> c_user c = u_id u)
      in if count_throws (flt e) then server_error
         else (let totalLeads = length (filter query (leads s));
                   totalCalls = length (filter callQuery (calls s));
                   connectedCalls = length (filter (\<lambda>c. callQuery c \<and> c_status c = ''connected'') (calls s));
                   totalTelecallers = length (filter (\<lambda>x. role x = ''telecaller'') (users s));
                   connectionRate = (if totalCalls \<noteq> 0
                           then toFixed (js_mul (js_div (of_nat connectedCalls) (of_nat totalCalls)) 100) 2 @ ''%''
                           else ''0%'')
               in Success 200 \<lparr>totalLeads = totalLeads, totalCalls = totalCalls,
                                connectedCalls = connectedCalls, connectionRate = connectionRate,
                                totalTelecallers = totalTelecallers\<rparr>))"

section \<open>Concrete requests and stores\<close>

definition tc :: user where
  "tc = \<lparr>u_id = 10, role = ''telecaller''\<rparr>"

definition adm :: user where
  "adm = \<lparr>u_id = 20, role = ''admin''\<rparr>"

definition lead_new :: lead where
  "lead_new = \<lparr>l_id = 1, source = ''website'', status = ''new'', createdBy = 10, lastModifiedBy = 20\<rparr>"

definition lead_lost :: lead where
  "lead_lost = \<lparr>l_id = 2, source = ''referral'', status = ''lost'', createdBy = 30, lastModifiedBy = 30\<rparr>"

definition store0 :: store where
  "store0 = \<lparr>leads = [lead_new, lead_lost], calls = [], users = [tc, adm, \<lparr>u_id = 30, role = ''telecaller''\<rparr>]\<rparr>"

definition env0 :: env where
  "env0 = \<lparr>flt = no_faults, now = 1767268800000, LocalTime = (\<lambda>t. t), UTC = (\<lambda>t. t),
     new_id = 100\<rparr>"

definition body_interested :: call_body where
  "body_interested = \<lparr>b_lead = 1, b_status = ''connected'', b_duration = Some 60,
     b_connectedResponse = Some ''interested'', b_notConnectedReason = None\<rparr>"

definition body_busy :: call_body where
  "body_busy = \<lparr>b_lead = 1, b_status = ''not_connected'', b_duration = None,
     b_connectedResponse = None, b_notConnectedReason = Some ''busy''\<rparr>"

definition body_reassign :: lead_body where
  "body_reassign = \<lparr>ub_source = None, ub_status = None, ub_createdBy = Some 30,
     ub_lastModifiedBy = None, ub_operators = []\<rparr>"

definition body_proposal :: lead_body where
  "body_proposal = \<lparr>ub_source = None, ub_status = Some ''proposal'', ub_createdBy = None,
     ub_lastModifiedBy = None, ub_operators = []\<rparr>"

text \<open>A store that rejects every update document with operators.\<close>

definition ops0 :: "lead_body \<Rightarrow> lead \<Rightarrow> lead option" where
  "ops0 d l = None"

text \<open>A validation error of the route: \<open>connectedResponse\<close> is not one of the enum.\<close>

definition body_maybe :: call_body where
  "body_maybe = \<lparr>b_lead = 2, b_status = ''connected'', b_duration = None,
     b_connectedResponse = Some ''maybe'', b_notConnectedReason = None\<rparr>"



text \<open>
  The clock of \<open>env0\<close> is 2026-01-01 12:00 UTC, day 20454, and its local time is
  UTC. \<open>store1\<close> holds one
  connected call made at that instant; \<open>store3\<close> holds three calls, one connected.
\<close>

text \<open>
  \<open>env_east\<close> is the same instant on a server at UTC+05:30. \<open>env_dst\<close> is
  2026-03-31 12:00 UTC on a server whose zone moves from UTC to UTC+01:00 at
  2026-03-29 01:00 UTC (day 20541), as Europe/London does.
\<close>

definition env_east :: env where
  "env_east = env0\<lparr>LocalTime := (\<lambda>t. t + 19800000), UTC := (\<lambda>t. t - 19800000)\<rparr>"

definition env_dst :: env where
  "env_dst = env0\<lparr>now := 1774958400000,
     LocalTime := (\<lambda>t. if t < 1774746000000 then t else t + 3600000),
     UTC := (\<lambda>l. if l < 1774749600000 then l else l - 3600000)\<rparr>"

definition store1 :: store where
  "store1 = store0\<lparr>calls := [callData env0 tc body_interested]\<rparr>"

definition store3 :: store where
  "store3 = store0\<lparr>calls := [callData env0 tc body_interested, callData env0 tc body_busy,
                               callData env0 adm body_busy]\<rparr>"

section \<open>Facts about the store's operations\<close>

lemma findById_update_first:
  "(\<And>l. l_id (f l) = l_id l) \<Longrightarrow> findById i (update_first i f ls) = map_option f (findById i ls)"
  by (induction ls) (auto simp: findById_def)

lemma findById_Some_id: "findById i ls = Some l \<Longrightarrow> l_id l = i"
  by (auto simp: findById_def find_Some_iff)

lemmas createCall_defs = createCall_def Call_create_def
  Lead_findByIdAndUpdate_status_def Lead_save_def Let_def

lemmas fixture_defs = tc_def adm_def lead_new_def lead_lost_def store0_def env0_def
  body_interested_def body_busy_def no_faults_def

lemmas eval_defs = createCall_defs callData_def CallSchema_valid_def truthy_def duration_or_0_def
  newStatus_def findById_def call_statuses_def connected_responses_def not_connected_reasons_def
  lead_statuses_def

section \<open>The status transitions of createCall\<close>



text \<open>
  C2. The transition is total and closed. For a request that passes validation, with the
  store answering every call, an existing lead the caller may use and a call document
  the schema accepts, createCall answers 201 and the lead then has a status; if the
  status before was one of the six of the enum, so is the status after, its stage
  (the position in the enum) is not lower, and a lead that was \<open>lost\<close> or
  \<open>converted\<close> keeps its status, the stored leads being unchanged.
\<close>

theorem createCall_status_total_closed:
  assumes "errs = []" and "flt e = no_faults"
    and "findById (b_lead b) (leads s) = Some l"
    and "\<not> (role u = ''telecaller'' \<and> createdBy l \<noteq> u_id u)"
    and "CallSchema_valid (callData e u b)"
    and "status l \<in> set lead_statuses"
  shows "\<exists>c s' st. createCall e s u errs b = (Success 201 c, s') \<and>
           map_option status (findById (b_lead b) (leads s')) = Some st \<and>
           st \<in> set lead_statuses \<and> stage (status l) \<le> stage st \<and>
           (status l \<in> {''lost'', ''converted''} \<longrightarrow> st = status l \<and> leads s' = leads s)"
  using assms findById_Some_id[OF assms(3)]
  by (auto simp: createCall_defs newStatus_def findById_update_first no_faults_def
      lead_statuses_def stage_def split: if_splits option.splits)

theorem createCall_status_total_closed_witness:
  "flt env0 = no_faults \<and>
   findById (b_lead (body_interested\<lparr>b_lead := 2\<rparr>)) (leads store0) = Some lead_lost \<and>
   \<not> (role adm = ''telecaller'' \<and> createdBy lead_lost \<noteq> u_id adm) \<and>
   CallSchema_valid (callData env0 adm (body_interested\<lparr>b_lead := 2\<rparr>)) \<and>
   status lead_lost \<in> set lead_statuses \<and> status lead_lost \<in> {''lost'', ''converted''} \<and>
   (\<exists>c s'. createCall env0 store0 adm [] (body_interested\<lparr>b_lead := 2\<rparr>) = (Success 201 c, s') \<and>
      map_option status (findById 2 (leads s')) = Some ''lost'' \<and> leads s' = leads store0)"
proof -
  let ?b = "body_interested\<lparr>b_lead := 2\<rparr>"
  have h2: "flt env0 = no_faults" by (simp add: env0_def)
  have h3: "findById (b_lead ?b) (leads store0) = Some lead_lost"
    by (simp add: findById_def fixture_defs)
  have h4: "\<not> (role adm = ''telecaller'' \<and> createdBy lead_lost \<noteq> u_id adm)"
    by (simp add: adm_def)
  have h5: "CallSchema_valid (callData env0 adm ?b)"
    by (simp add: eval_defs fixture_defs)
  have h6: "status lead_lost \<in> set lead_statuses"
    by (simp add: lead_lost_def lead_statuses_def)
  have h7: "status lead_lost = ''lost''" by (simp add: lead_lost_def)
  from createCall_status_total_closed[OF refl h2 h3 h4 h5 h6] h2 h3 h4 h5 h6 h7
  show ?thesis by (auto simp: body_interested_def)
qed

text \<open>
  C3, at the input where the code departs from it. A telecaller (id 10) records a
  not_connected call against their own \<open>new\<close> lead, last modified by user 20. The
  call is recorded and the lead is stored as \<open>contacted\<close>, but its lastModifiedBy is
  still 20: the update of line 44 writes the status alone.
\<close>

theorem createCall_not_connected_lastModifiedBy:
  "fst (createCall env0 store0 tc [] body_busy) = Success 201 (callData env0 tc body_busy) \<and>
   findById 1 (leads store0) = Some lead_new \<and> status lead_new = ''new'' \<and>
   findById 1 (leads (snd (createCall env0 store0 tc [] body_busy))) =
     Some (lead_new\<lparr>status := ''contacted''\<rparr>) \<and>
   lastModifiedBy (lead_new\<lparr>status := ''contacted''\<rparr>) = 20 \<and> u_id tc = 10"
  by (simp add: eval_defs fixture_defs)

text \<open>
  The connected branch, for comparison: when it changes the status it stores the
  caller as lastModifiedBy.
\<close>

lemma createCall_connected_lastModifiedBy:
  assumes "createCall e s u errs b = (Success k c, s')"
    and "findById (b_lead b) (leads s) = Some l"
    and "b_status b = ''connected''"
    and "map_option status (findById (b_lead b) (leads s')) \<noteq> Some (status l)"
  shows "map_option lastModifiedBy (findById (b_lead b) (leads s')) = Some (u_id u)"
  using assms findById_Some_id[OF assms(2)]
  by (auto simp: createCall_defs newStatus_def findById_update_first split: if_splits option.splits)

section \<open>Authorization and failures of createCall\<close>

text \<open>
  C6 as stated fails. A telecaller (id 10) sends a body that the route's validators
  reject (\<open>connectedResponse: 'maybe'\<close>) against lead 2, created by user 30: the
  answer is 400 with the validation errors, not 403. The store is unchanged.
\<close>

theorem createCall_invalid_payload_counterexample:
  "findById (b_lead body_maybe) (leads store0) = Some lead_lost \<and>
   role tc = ''telecaller'' \<and> createdBy lead_lost = 30 \<and> u_id tc = 10 \<and>
   createCall env0 store0 tc [''Invalid value''] body_maybe =
     (BadRequest [''Invalid value''], store0)"
  by (simp add: createCall_def findById_def fixture_defs body_maybe_def)

text \<open>
  C6 as amended. When a telecaller asks to record a call against a lead created by
  another user, the store is unchanged (no call is stored, the lead keeps its
  status) and the request fails: with 403 (not authorized) when it has passed
  validation and the lookup of the lead has answered; with 400 when it carries
  validation errors, and with 500 when the lookup throws, both of which the
  controller decides before it looks at the owner.
\<close>

theorem createCall_other_users_lead:
  assumes "findById (b_lead b) (leads s) = Some l"
    and "role u = ''telecaller''" and "createdBy l \<noteq> u_id u"
  shows "createCall e s u errs b =
           (if errs \<noteq> [] then BadRequest errs
            else if findById_throws (flt e) then Failure 500 ''Server error''
            else Failure 403 ''Not authorized to log calls for this lead'', s)"
  using assms by (simp add: createCall_def)

theorem createCall_other_users_lead_witness:
  "findById (b_lead (body_busy\<lparr>b_lead := 2\<rparr>)) (leads store0) = Some lead_lost \<and>
   role tc = ''telecaller'' \<and> createdBy lead_lost \<noteq> u_id tc \<and>
   \<not> findById_throws (flt env0) \<and>
   createCall env0 store0 tc [] (body_busy\<lparr>b_lead := 2\<rparr>) =
     (Failure 403 ''Not authorized to log calls for this lead'', store0)"
proof -
  let ?b = "body_busy\<lparr>b_lead := 2\<rparr>"
  have h1: "findById (b_lead ?b) (leads store0) = Some lead_lost"
    by (simp add: findById_def fixture_defs)
  have h2: "role tc = ''telecaller''" by (simp add: tc_def)
  have h3: "createdBy lead_lost \<noteq> u_id tc" by (simp add: tc_def lead_lost_def)
  have h4: "\<not> findById_throws (flt env0)" by (simp add: env0_def no_faults_def)
  from createCall_other_users_lead[OF h1 h2 h3, of env0 "[]"] h1 h2 h3 h4 show ?thesis by simp
qed

text \<open>
  C7 as stated fails. With \<open>lead.save()\<close> throwing, a connected, interested call
  against a \<open>new\<close> lead is stored, and the response is 500 \<open>Server error\<close>, not a
  success.
\<close>

theorem createCall_save_failure_counterexample:
  "fst (createCall (env0\<lparr>flt := no_faults\<lparr>save_throws := True\<rparr>\<rparr>) store0 tc [] body_interested) =
     Failure 500 ''Server error'' \<and>
   calls (snd (createCall (env0\<lparr>flt := no_faults\<lparr>save_throws := True\<rparr>\<rparr>) store0 tc [] body_interested)) =
     calls store0 @ [callData env0 tc body_interested]"
  by (simp add: eval_defs fixture_defs)

text \<open>
  C7 as amended. Once the call is stored, a failure of the lead's status update (the
  \<open>findByIdAndUpdate\<close> of a \<open>new\<close> lead, or the \<open>save\<close> of the connected branch)
  does not remove the call, and the response is 500 \<open>Server error\<close>.
\<close>

theorem createCall_lead_update_failure:
  assumes "errs = []" and "\<not> findById_throws (flt e)"
    and "findById (b_lead b) (leads s) = Some l"
    and "\<not> (role u = ''telecaller'' \<and> createdBy l \<noteq> u_id u)"
    and "Call_create e (callData e u b) s = Some s1"
    and "(status l = ''new'' \<and> findByIdAndUpdate_throws (flt e)) \<or>
         (\<not> populate_throws (flt e) \<and> b_status b = ''connected'' \<and>
          newStatus (status l) (b_connectedResponse b) \<noteq> status l \<and> save_throws (flt e))"
  shows "\<exists>s'. createCall e s u errs b = (Failure 500 ''Server error'', s') \<and>
           calls s' = calls s @ [callData e u b]"
  using assms
  by (auto simp: createCall_defs split: if_splits option.splits)

theorem createCall_lead_update_failure_witness:
  "\<not> findById_throws (flt (env0\<lparr>flt := no_faults\<lparr>findByIdAndUpdate_throws := True\<rparr>\<rparr>)) \<and>
   findById (b_lead body_busy) (leads store0) = Some lead_new \<and>
   \<not> (role tc = ''telecaller'' \<and> createdBy lead_new \<noteq> u_id tc) \<and>
   Call_create (env0\<lparr>flt := no_faults\<lparr>findByIdAndUpdate_throws := True\<rparr>\<rparr>)
     (callData (env0\<lparr>flt := no_faults\<lparr>findByIdAndUpdate_throws := True\<rparr>\<rparr>) tc body_busy) store0 =
     Some (store0\<lparr>calls := [callData env0 tc body_busy]\<rparr>) \<and>
   status lead_new = ''new'' \<and>
   findByIdAndUpdate_throws (flt (env0\<lparr>flt := no_faults\<lparr>findByIdAndUpdate_throws := True\<rparr>\<rparr>)) \<and>
   createCall (env0\<lparr>flt := no_faults\<lparr>findByIdAndUpdate_throws := True\<rparr>\<rparr>) store0 tc [] body_busy =
     (Failure 500 ''Server error'', store0\<lparr>calls := [callData env0 tc body_busy]\<rparr>)"
proof -
  let ?e = "env0\<lparr>flt := no_faults\<lparr>findByIdAndUpdate_throws := True\<rparr>\<rparr>"
  have h2: "\<not> findById_throws (flt ?e)" by (simp add: no_faults_def)
  have h3: "findById (b_lead body_busy) (leads store0) = Some lead_new"
    by (simp add: findById_def fixture_defs)
  have h4: "\<not> (role tc = ''telecaller'' \<and> createdBy lead_new \<noteq> u_id tc)"
    by (simp add: tc_def lead_new_def)
  have h5: "Call_create ?e (callData ?e tc body_busy) store0 =
              Some (store0\<lparr>calls := [callData env0 tc body_busy]\<rparr>)"
    by (simp add: eval_defs fixture_defs)
  have h6: "(status lead_new = ''new'' \<and> findByIdAndUpdate_throws (flt ?e)) \<or>
         (\<not> populate_throws (flt ?e) \<and> b_status body_busy = ''connected'' \<and>
          newStatus (status lead_new) (b_connectedResponse body_busy) \<noteq> status lead_new \<and>
          save_throws (flt ?e))"
    by (simp add: lead_new_def no_faults_def)
  have run: "createCall ?e store0 tc [] body_busy =
     (Failure 500 ''Server error'', store0\<lparr>calls := [callData env0 tc body_busy]\<rparr>)"
    by (simp add: eval_defs fixture_defs)
  from createCall_lead_update_failure[OF refl h2 h3 h4 h5 h6] h2 h3 h4 h5 run show ?thesis
    by (simp add: lead_new_def no_faults_def)
qed

section \<open>The conditional fields of a stored call\<close>

lemma callData_fields: "conditional_fields_ok (callData e u b)"
  by (simp add: callData_def conditional_fields_ok_def Let_def)

text \<open>
  C10. Whatever the request, createCall stores at most one call, and the call it
  stores has connectedResponse set only under status \<open>connected\<close>,
  notConnectedReason set only under status \<open>not_connected\<close>, and never both.
\<close>

theorem createCall_conditional_fields:
  "calls (snd (createCall e s u errs b)) = calls s \<or>
   (\<exists>c. calls (snd (createCall e s u errs b)) = calls s @ [c] \<and> conditional_fields_ok c)"
  using callData_fields[of e u b]
  by (auto simp: createCall_defs split: if_splits option.splits)

theorem createCall_conditional_fields_witness:
  "calls (snd (createCall env0 store0 tc []
      (body_interested\<lparr>b_notConnectedReason := Some ''busy''\<rparr>))) =
     calls store0 @ [callData env0 tc (body_interested\<lparr>b_notConnectedReason := Some ''busy''\<rparr>)] \<and>
   conditional_fields_ok (callData env0 tc (body_interested\<lparr>b_notConnectedReason := Some ''busy''\<rparr>)) \<and>
   connectedResponse (callData env0 tc (body_interested\<lparr>b_notConnectedReason := Some ''busy''\<rparr>)) =
     Some ''interested'' \<and>
   notConnectedReason (callData env0 tc (body_interested\<lparr>b_notConnectedReason := Some ''busy''\<rparr>)) = None"
proof -
  let ?b = "body_interested\<lparr>b_notConnectedReason := Some ''busy''\<rparr>"
  have run: "calls (snd (createCall env0 store0 tc [] ?b)) = calls store0 @ [callData env0 tc ?b]"
    by (simp add: eval_defs fixture_defs)
  from createCall_conditional_fields[of env0 store0 tc "[]" ?b] run
  have "conditional_fields_ok (callData env0 tc ?b)" by auto
  with run show ?thesis
    by (simp add: callData_def truthy_def body_interested_def Let_def)
qed

section \<open>The creator of a lead\<close>

text \<open>
  C4 as stated fails. A telecaller (id 10) updates their own lead with the body
  \<open>{createdBy: 30}\<close>: the update answers 200 and the lead's createdBy is 30.
\<close>

theorem updateLead_createdBy_counterexample:
  "fst (updateLead env0 ops0 store0 tc [] 1 body_reassign) =
     Success 200 (Some (lead_new\<lparr>createdBy := 30, lastModifiedBy := 10\<rparr>)) \<and>
   map_option createdBy (findById 1 (leads store0)) = Some 10 \<and>
   map_option createdBy (findById 1 (leads (snd (updateLead env0 ops0 store0 tc [] 1 body_reassign)))) =
     Some 30"
  by (simp add: updateLead_def Lead_findByIdAndUpdate_def apply_update_def update_valid_def
      Let_def findById_def fixture_defs body_reassign_def)

lemma map_createdBy_update_first:
  "(\<And>l. createdBy (f l) = createdBy l) \<Longrightarrow> map createdBy (update_first i f ls) = map createdBy ls"
  by (induction ls) auto

lemma updateLead_createdBy:
  "ub_createdBy b = None \<Longrightarrow> ub_operators b = [] \<Longrightarrow>
   map createdBy (leads (snd (updateLead e ops s u errs i b))) = map createdBy (leads s)"
  by (auto simp: updateLead_def Lead_findByIdAndUpdate_def apply_update_def Let_def
      map_createdBy_update_first split: option.splits)

lemma createCall_createdBy:
  "map createdBy (leads (snd (createCall e s u errs b))) = map createdBy (leads s)"
  by (auto simp: createCall_defs map_createdBy_update_first split: option.splits)

text \<open>
  C4 as amended. An update whose body has no top-level \<open>createdBy\<close> field and no
  update operator (no top-level key that starts with \<open>$\<close>) leaves the createdBy of
  every lead as it was, whatever plain fields the body holds, whatever the store does
  with operators and whatever the response; and the two writes of createCall never
  change a createdBy.
\<close>

theorem lead_createdBy_preserved:
  "(ub_createdBy b = None \<and> ub_operators b = [] \<longrightarrow>
      map createdBy (leads (snd (updateLead e ops s u errs i b))) = map createdBy (leads s)) \<and>
   map createdBy (leads (snd (createCall e s u errs' cb))) = map createdBy (leads s)"
  by (simp add: updateLead_createdBy createCall_createdBy)

theorem lead_createdBy_preserved_witness:
  "ub_createdBy body_proposal = None \<and> ub_operators body_proposal = [] \<and>
   fst (updateLead env0 ops0 store0 tc [] 1 body_proposal) =
     Success 200 (Some (lead_new\<lparr>status := ''proposal'', lastModifiedBy := 10\<rparr>)) \<and>
   map createdBy (leads (snd (updateLead env0 ops0 store0 tc [] 1 body_proposal))) = [10, 30] \<and>
   map createdBy (leads (snd (createCall env0 store0 tc [] body_interested))) = [10, 30] \<and>
   map createdBy (leads store0) = [10, 30]"
proof -
  have h: "ub_createdBy body_proposal = None \<and> ub_operators body_proposal = []"
    by (simp add: body_proposal_def)
  have before: "map createdBy (leads store0) = [10, 30]" by (simp add: fixture_defs)
  have run: "fst (updateLead env0 ops0 store0 tc [] 1 body_proposal) =
     Success 200 (Some (lead_new\<lparr>status := ''proposal'', lastModifiedBy := 10\<rparr>))"
    by (simp add: updateLead_def Lead_findByIdAndUpdate_def apply_update_def update_valid_def
        Let_def findById_def fixture_defs body_proposal_def lead_statuses_def)
  from lead_createdBy_preserved[of body_proposal env0 ops0 store0 tc "[]" 1 "[]" body_interested]
    h before run
  show ?thesis by simp
qed

section \<open>The scope of getLeads\<close>





section \<open>The buckets of getCallTrends\<close>

text \<open>
  C8, at the input where the code departs from it. On a server whose local time is
  UTC, with one connected call made today and the default of 7 days, the six days
  without calls come back as \<open>{date, count: 0, connected: 0}\<close> and today comes back
  as the group document \<open>{_id, count: 1, connected: 1}\<close>, which has no \<open>date\<close>.
\<close>

theorem getCallTrends_active_day_shape:
  "getCallTrends env0 store1 tc None = Success 200
     [[(''date'', JDate 20448), (''count'', JNum 0), (''connected'', JNum 0)],
      [(''date'', JDate 20449), (''count'', JNum 0), (''connected'', JNum 0)],
      [(''date'', JDate 20450), (''count'', JNum 0), (''connected'', JNum 0)],
      [(''date'', JDate 20451), (''count'', JNum 0), (''connected'', JNum 0)],
      [(''date'', JDate 20452), (''count'', JNum 0), (''connected'', JNum 0)],
      [(''date'', JDate 20453), (''count'', JNum 0), (''connected'', JNum 0)],
      [(''_id'', JDate 20454), (''count'', JNum 1), (''connected'', JNum 1)]] \<and>
   map_of [(''_id'', JDate 20454), (''count'', JNum 1), (''connected'', JNum 1)] ''date'' = None \<and>
   utc_day (now env0) = 20454"
  by code_simp

text \<open>
  What does hold when the request succeeds: the number of buckets is \<open>days\<close>, and
  bucket \<open>i\<close> carries, under \<open>date\<close> or under \<open>_id\<close>, the UTC day of the instant
  \<open>i\<close> local days after the start.
\<close>

lemma those_length: "those xs = Some ys \<Longrightarrow> length ys = length xs"
  by (induction xs arbitrary: ys) (auto split: option.splits)

lemma getCallTrends_length:
  "getCallTrends e s u q = Success k bs \<Longrightarrow> length bs = nat (parseInt_or q 7)"
  by (auto simp: getCallTrends_def Let_def dest: those_length split: if_splits option.splits)

lemma trend_bucket_day:
  "trend_bucket e start trends i = Some b \<Longrightarrow>
   \<exists>t. addDays e start (int i) = Some t \<and>
       (map_of b ''date'' = Some (JDate (utc_day t)) \<or> map_of b ''_id'' = Some (JDate (utc_day t)))"
  by (auto simp: trend_bucket_def Let_def find_Some_iff split: option.splits)

text \<open>
  On a server east of UTC (here at +05:30) the local midnights fall on the UTC day
  before, so the seven buckets are the days 20447 to 20453 and today's call is in
  none of them.
\<close>

lemma getCallTrends_east_of_UTC:
  "getCallTrends env_east store1 tc None = Success 200
     [[(''date'', JDate 20447), (''count'', JNum 0), (''connected'', JNum 0)],
      [(''date'', JDate 20448), (''count'', JNum 0), (''connected'', JNum 0)],
      [(''date'', JDate 20449), (''count'', JNum 0), (''connected'', JNum 0)],
      [(''date'', JDate 20450), (''count'', JNum 0), (''connected'', JNum 0)],
      [(''date'', JDate 20451), (''count'', JNum 0), (''connected'', JNum 0)],
      [(''date'', JDate 20452), (''count'', JNum 0), (''connected'', JNum 0)],
      [(''date'', JDate 20453), (''count'', JNum 0), (''connected'', JNum 0)]]"
  by code_simp

text \<open>
  Across a change to daylight saving time the local midnights move from 00:00 to
  23:00 UTC, so a date comes twice: four days ending 2026-03-31 give the days 20540,
  20541, 20541 and 20542.
\<close>

lemma getCallTrends_across_DST:
  "getCallTrends env_dst store0 tc (Some 4) = Success 200
     [[(''date'', JDate 20540), (''count'', JNum 0), (''connected'', JNum 0)],
      [(''date'', JDate 20541), (''count'', JNum 0), (''connected'', JNum 0)],
      [(''date'', JDate 20541), (''count'', JNum 0), (''connected'', JNum 0)],
      [(''date'', JDate 20542), (''count'', JNum 0), (''connected'', JNum 0)]]"
  by code_simp

text \<open>
  A number of days beyond the range of \<open>Date\<close> makes the start an invalid date, and
  the request ends with 500.
\<close>

lemma getCallTrends_days_out_of_range:
  "getCallTrends env0 store0 tc (Some 200000000) = Failure 500 ''Server error''"
  by code_simp

section \<open>The connection rate of getDashboardStats\<close>

lemma round_half_even_error: "\<bar>of_int (round_half_even m) - m\<bar> \<le> 1 / 2"
proof -
  define f where "f = \<lfloor>m\<rfloor>"
  have "of_int f \<le> m" "m < of_int f + 1" unfolding f_def by linarith+
  then show ?thesis
    unfolding round_half_even_def Let_def f_def[symmetric] by (auto simp: abs_if)
qed

lemma two_powi_pos: "0 < (2::rat) powi k"
  by (simp add: power_int_def)

lemma binade_bounds:
  assumes "0 < x"
  shows "2 powi binade x \<le> x" and "x < 2 powi (binade x + 1)"
proof -
  obtain a b where q: "quotient_of x = (a, b)" by (cases "quotient_of x")
  then have b: "0 < b" and x: "x = of_int a / of_int b"
    by (auto dest: quotient_of_denom_pos quotient_of_div)
  with assms have a: "0 < a" by (simp add: zero_less_divide_iff)
  define A B where "A = bitlen a" and "B = bitlen b"
  have A1: "1 \<le> A" and B1: "1 \<le> B"
    using a b bitlen_eq_zero_iff[of a] bitlen_eq_zero_iff[of b] bitlen_nonneg[of a] bitlen_nonneg[of b]
    by (auto simp: A_def B_def)
  have ia: "(2::int) ^ nat (A - 1) \<le> a" "a < 2 ^ nat A"
    and ib: "(2::int) ^ nat (B - 1) \<le> b" "b < 2 ^ nat B"
    using bitlen_bounds[OF a] bitlen_bounds[OF b] by (auto simp: A_def B_def)
  have cast: "(2::rat) powi k = of_int (2 ^ nat k)" if "0 \<le> k" for k
    using that by (simp add: power_int_def)
  have pa: "(2::rat) powi (A - 1) \<le> of_int a" "of_int a < (2::rat) powi A"
   and pb: "(2::rat) powi (B - 1) \<le> of_int b" "of_int b < (2::rat) powi B"
    using ia ib A1 B1 by (simp_all only: cast of_int_le_iff of_int_less_iff)
  have bpos: "(0::rat) < of_int b" using b by simp
  have "x < 2 powi A / 2 powi (B - 1)"
    unfolding x using pa(2) pb(1) bpos two_powi_pos[of "B - 1"]
    using a by (intro frac_less) simp_all
  also have "\<dots> = 2 powi (A - B + 1)"
    by (simp add: power_int_diff[symmetric] algebra_simps)
  finally have up: "x < 2 powi (A - B + 1)" .
  have "(2::rat) powi (A - 1) / 2 powi B \<le> x"
    unfolding x using pa(1) pb(2) bpos two_powi_pos[of "B"] two_powi_pos[of "A - 1"]
    using a by (intro frac_le) simp_all
  moreover have "(2::rat) powi (A - 1) / 2 powi B = 2 powi (A - B - 1)"
    by (simp add: power_int_diff[symmetric] algebra_simps)
  ultimately have lo: "2 powi (A - B - 1) \<le> x" by simp
  have e: "binade x = (if 2 powi (A - B) \<le> x then A - B else A - B - 1)"
    by (simp add: binade_def q A_def B_def)
  show "2 powi binade x \<le> x" using lo by (simp add: e)
  show "x < 2 powi (binade x + 1)" using up by (auto simp: e)
qed

lemma fl_error:
  assumes "0 \<le> x"
  shows "\<bar>fl x - x\<bar> \<le> x / 2 ^ 53"
proof (cases "x = 0")
  case True
  then show ?thesis by (simp add: fl_def)
next
  case False
  with assms have x: "0 < x" by simp
  define u :: rat where "u = 2 powi (binade x - 52)"
  have u: "0 < u" unfolding u_def by (rule two_powi_pos)
  have flx: "fl x = of_int (round_half_even (x / u)) * u"
    using x by (simp add: fl_def u_def Let_def)
  have "(of_int (round_half_even (x / u)) - x / u) * u = fl x - x"
    using u by (simp add: flx left_diff_distrib)
  then have "\<bar>fl x - x\<bar> = \<bar>of_int (round_half_even (x / u)) - x / u\<bar> * \<bar>u\<bar>"
    by (simp only: abs_mult[symmetric])
  also have "\<dots> = \<bar>of_int (round_half_even (x / u)) - x / u\<bar> * u"
    using u by simp
  also have "\<dots> \<le> 1 / 2 * u"
    using round_half_even_error[of "x / u"] u by (intro mult_right_mono) simp_all
  also have "\<dots> = 2 powi binade x / 2 ^ 53"
    by (simp add: u_def power_int_diff)
  also have "\<dots> \<le> x / 2 ^ 53"
    using binade_bounds(1)[OF x] by (simp add: divide_right_mono)
  finally show ?thesis .
qed

lemma fl_nonneg: "0 \<le> x \<Longrightarrow> 0 \<le> fl x"
  using fl_error[of x] by (auto simp: abs_if split: if_splits) 


lemma rate_error:
  fixes c t :: nat
  assumes t: "0 < t" and ct: "c \<le> t"
  shows "\<bar>js_mul (js_div (of_nat c) (of_nat t)) 100 - 100 * of_nat c / of_nat t\<bar> \<le> 201 / 2 ^ 53"
proof -
  define x :: rat where "x = of_nat c / of_nat t"
  define y1 where "y1 = fl x"
  define y2 where "y2 = fl (y1 * 100)"
  have x0: "0 \<le> x" and x1: "x \<le> 1" using t ct by (simp_all add: x_def)
  have e1: "\<bar>y1 - x\<bar> \<le> 1 / 2 ^ 53"
  proof -
    have "\<bar>y1 - x\<bar> \<le> x / 2 ^ 53" unfolding y1_def by (rule fl_error[OF x0])
    also have "\<dots> \<le> 1 / 2 ^ 53" using x1 by (simp add: divide_right_mono)
    finally show ?thesis .
  qed
  have y10: "0 \<le> y1" unfolding y1_def by (rule fl_nonneg[OF x0])
  have y11: "y1 \<le> 1 + 1 / 2 ^ 53" using e1 x1 by linarith
  have e2: "\<bar>y2 - y1 * 100\<bar> \<le> 101 / 2 ^ 53"
  proof -
    have "\<bar>y2 - y1 * 100\<bar> \<le> y1 * 100 / 2 ^ 53"
      unfolding y2_def using y10 by (intro fl_error) simp
    also have "\<dots> \<le> (1 + 1 / 2 ^ 53) * 100 / 2 ^ 53"
      using y11 by (intro divide_right_mono mult_right_mono) simp_all
    also have "\<dots> \<le> 101 / 2 ^ 53" by simp
    finally show ?thesis .
  qed
  have "\<bar>y2 - 100 * x\<bar> \<le> \<bar>y2 - y1 * 100\<bar> + 100 * \<bar>y1 - x\<bar>" by (simp add: abs_if split: if_splits)
  also have "\<dots> \<le> 101 / 2 ^ 53 + 100 * (1 / 2 ^ 53)"
    using e1 e2 by (intro add_mono mult_left_mono) simp_all
  also have "\<dots> = 201 / 2 ^ 53" by simp
  finally show ?thesis by (simp add: y2_def y1_def x_def js_mul_def js_div_def)
qed

lemma rate_rounding:
  fixes c t :: nat
  assumes t: "0 < t" and ct: "c \<le> t" and small: "t < 2 ^ 37"
  defines "n \<equiv> \<lfloor>js_mul (js_div (of_nat c) (of_nat t)) 100 * 100 + 1 / 2\<rfloor>"
  shows "\<bar>of_int n - 10000 * of_nat c / (of_nat t :: rat)\<bar> \<le> 1 / 2"
proof -
  define y :: rat where "y = js_mul (js_div (of_nat c) (of_nat t)) 100"
  define T :: rat where "T = of_nat t"
  define C :: rat where "C = of_nat c"
  have Tpos: "0 < T" using t by (simp add: T_def)
  have err: "\<bar>y - 100 * C / T\<bar> \<le> 201 / 2 ^ 53"
    unfolding y_def C_def T_def by (rule rate_error[OF t ct])
  have "T < 2 ^ 37" using small unfolding T_def
    by (metis of_nat_less_iff of_nat_numeral of_nat_power)
  then have "2 * T * 20100 < 2 ^ 53" by simp
  then have bound: "100 * (201 / 2 ^ 53) < 1 / (2 * T)"
    using Tpos by (simp add: field_simps)
  have D: "\<bar>100 * y - 10000 * C / T\<bar> < 1 / (2 * T)"
  proof -
    have "\<bar>100 * y - 10000 * C / T\<bar> = 100 * \<bar>y - 100 * C / T\<bar>" by (simp add: abs_if)
    also have "\<dots> \<le> 100 * (201 / 2 ^ 53)" using err by simp
    finally show ?thesis using bound by simp
  qed
  have n1: "of_int n \<le> y * 100 + 1 / 2" and n2: "y * 100 + 1 / 2 < of_int n + 1"
    unfolding n_def y_def by linarith+
  define Q where "Q = 10000 * C / T"
  define H where "H = 1 / (2 * T)"
  from D have D': "\<bar>100 * y - Q\<bar> < H" by (simp only: Q_def H_def)
  have "of_int n - 1 / 2 - H < Q" using D' n1 by linarith
  then have lo: "of_int n - 1 / 2 - 1 / (2 * T) < 10000 * C / T"
    by (simp only: Q_def H_def)
  have "Q < of_int n + 1 / 2 + H" using D' n2 by linarith
  then have hi: "10000 * C / T < of_int n + 1 / 2 + 1 / (2 * T)"
    by (simp only: Q_def H_def)
  have T2: "0 < 2 * T" using Tpos by simp
  have eqQ: "10000 * C / T * (2 * T) = 20000 * C" using Tpos by simp
  have eqL: "(of_int n - 1 / 2 - 1 / (2 * T)) * (2 * T) = (2 * of_int n - 1) * T - 1"
    using Tpos by (simp add: field_simps)
  have eqH: "(of_int n + 1 / 2 + 1 / (2 * T)) * (2 * T) = (2 * of_int n + 1) * T + 1"
    using Tpos by (simp add: field_simps)
  from mult_strict_right_mono[OF lo T2] have "(2 * of_int n - 1) * T - 1 < 20000 * C"
    by (simp only: eqQ eqL)
  then have "rat_of_int ((2 * n - 1) * int t - 1) < rat_of_int (20000 * int c)"
    by (simp add: T_def C_def)
  then have "(2 * n - 1) * int t - 1 < 20000 * int c" by (simp only: of_int_less_iff)
  then have "(2 * n - 1) * int t \<le> 20000 * int c" by simp
  then have "rat_of_int ((2 * n - 1) * int t) \<le> rat_of_int (20000 * int c)" by (simp only: of_int_le_iff)
  then have lo': "(2 * of_int n - 1) * T \<le> 20000 * C" by (simp add: T_def C_def)
  from mult_strict_right_mono[OF hi T2] have "20000 * C < (2 * of_int n + 1) * T + 1"
    by (simp only: eqQ eqH)
  then have "rat_of_int (20000 * int c) < rat_of_int ((2 * n + 1) * int t + 1)"
    by (simp add: T_def C_def)
  then have "20000 * int c < (2 * n + 1) * int t + 1" by (simp only: of_int_less_iff)
  then have "20000 * int c \<le> (2 * n + 1) * int t" by simp
  then have "rat_of_int (20000 * int c) \<le> rat_of_int ((2 * n + 1) * int t)" by (simp only: of_int_le_iff)
  then have hi': "20000 * C \<le> (2 * of_int n + 1) * T" by (simp add: T_def C_def)
  have "(of_int n - 1 / 2) * (2 * T) \<le> 10000 * C / T * (2 * T)"
    using lo' by (simp add: eqQ algebra_simps)
  then have r1: "of_int n - 1 / 2 \<le> 10000 * C / T"
    using T2 by (simp only: mult_le_cancel_right_pos)
  have "10000 * C / T * (2 * T) \<le> (of_int n + 1 / 2) * (2 * T)"
    using hi' by (simp add: eqQ algebra_simps)
  then have r2: "10000 * C / T \<le> of_int n + 1 / 2"
    using T2 by (simp only: mult_le_cancel_right_pos)
  from r1 r2 have "\<bar>of_int n - 10000 * C / T\<bar> \<le> 1 / 2" by linarith
  then show ?thesis by (simp only: C_def T_def)
qed


lemma dec_small: "n < 10 \<Longrightarrow> dec n = [digit n]"
  by (simp add: dec.simps)

lemma dec_large: "10 \<le> n \<Longrightarrow> dec n = dec (n div 10) @ [digit (n mod 10)]"
  by (subst dec.simps) simp

lemma length_dec_pos: "0 < length (dec n)"
  by (subst dec.simps) simp

lemma toFixed_2:
  assumes "0 \<le> x"
  defines "n \<equiv> nat \<lfloor>x * 100 + 1 / 2\<rfloor>"
  shows "toFixed x 2 = dec (n div 100) @ ''.'' @ [digit (n div 10 mod 10), digit (n mod 10)]"
proof -
  define m where "m = dec n"
  define m' where "m' = (if length m \<le> 2 then replicate (3 - length m) (CHR ''0'') @ m else m)"
  have unfold: "toFixed x 2 = take (length m' - 2) m' @ ''.'' @ drop (length m' - 2) m'"
    using assms(1) by (simp add: toFixed_def Let_def n_def m_def m'_def)
  have zero: "CHR ''0'' = digit 0" by (simp add: digit_def)
  consider "n < 10" | "10 \<le> n" "n < 100" | "100 \<le> n" by linarith
  then show ?thesis
  proof cases
    case 1
    then have "m = [digit n]" "n div 100 = 0" "n div 10 = 0" "n mod 10 = n"
      by (simp_all add: dec_small m_def)
    then show ?thesis
      by (simp add: unfold m'_def dec_small zero numeral_3_eq_3)
  next
    case 2
    then have "m = [digit (n div 10), digit (n mod 10)]" "n div 100 = 0" "n div 10 mod 10 = n div 10"
      by (simp_all add: dec_large dec_small m_def)
    then show ?thesis
      by (simp add: unfold m'_def dec_small zero)
  next
    case 3
    then have a: "10 \<le> n" and b: "10 \<le> n div 10" by simp_all
    have "m = dec (n div 10 div 10) @ [digit (n div 10 mod 10)] @ [digit (n mod 10)]"
      by (simp add: dec_large[OF a] dec_large[OF b] m_def)
    then have d: "m = dec (n div 100) @ [digit (n div 10 mod 10), digit (n mod 10)]"
      by (simp add: div_mult2_eq[symmetric])
    show ?thesis using length_dec_pos[of "n div 100"]
      by (simp add: unfold m'_def d)
  qed
qed


lemma rate_nonneg: "0 \<le> js_mul (js_div (of_nat c) (of_nat t)) 100"
  unfolding js_mul_def js_div_def by (intro fl_nonneg mult_nonneg_nonneg) simp_all

lemma connectionRate_rounded:
  fixes c t :: nat
  assumes "0 < t" and "c \<le> t" and "t < 2 ^ 37"
  shows "\<exists>n. toFixed (js_mul (js_div (of_nat c) (of_nat t)) 100) 2 =
               dec (n div 100) @ ''.'' @ [digit (n div 10 mod 10), digit (n mod 10)] \<and>
             \<bar>of_nat n / 100 - 100 * of_nat c / (of_nat t :: rat)\<bar> \<le> 1 / 200"
proof -
  define y where "y = js_mul (js_div (of_nat c) (of_nat t)) 100"
  define k where "k = \<lfloor>y * 100 + 1 / 2\<rfloor>"
  have y: "0 \<le> y" unfolding y_def by (rule rate_nonneg)
  then have "0 \<le> y * 100 + 1 / 2" by simp
  then have k: "0 \<le> k" unfolding k_def by simp
  have "\<bar>of_int k - 10000 * of_nat c / (of_nat t :: rat)\<bar> \<le> 1 / 2"
    unfolding k_def y_def by (rule rate_rounding[OF assms])
  then have "\<bar>rat_of_nat (nat k) - 10000 * of_nat c / of_nat t\<bar> \<le> 1 / 2"
    using k by simp
  moreover have "rat_of_nat (nat k) / 100 - 100 * of_nat c / of_nat t =
      (rat_of_nat (nat k) - 10000 * of_nat c / of_nat t) / 100"
    by (simp add: diff_divide_distrib)
  ultimately have "\<bar>rat_of_nat (nat k) / 100 - 100 * of_nat c / of_nat t\<bar> \<le> 1 / 200"
    by (simp only: abs_divide)
  moreover have "toFixed y 2 =
      dec (nat k div 100) @ ''.'' @ [digit (nat k div 10 mod 10), digit (nat k mod 10)]"
    unfolding k_def by (rule toFixed_2[OF y])
  ultimately show ?thesis unfolding y_def by blast
qed

lemma connected_le_total: "length (filter (\<lambda>c. Q c \<and> P c) xs) \<le> length (filter Q xs)"
  by (induction xs) auto

text \<open>
  C9. When the counts answer, getDashboardStats answers 200. With no calls in scope
  the rate is exactly \<open>0%\<close>. With calls in scope (fewer than \<open>2 ^ 37\<close>) the rate is
  a decimal numeral with two digits after the point followed by \<open>%\<close>, and the
  number it shows is \<open>connectedCalls / totalCalls * 100\<close> rounded to two places: it
  is a multiple of 1/100 at distance at most 1/200 from the exact quotient, the
  binary64 arithmetic of the division and the product notwithstanding.
\<close>

theorem getDashboardStats_connectionRate:
  assumes "\<not> count_throws (flt e)"
  shows "\<exists>r. getDashboardStats e s u = Success 200 r \<and>
           (totalCalls r = 0 \<longrightarrow> connectionRate r = ''0%'') \<and>
           (0 < totalCalls r \<and> totalCalls r < 2 ^ 37 \<longrightarrow>
              (\<exists>n. connectionRate r =
                      dec (n div 100) @ ''.'' @ [digit (n div 10 mod 10), digit (n mod 10)] @ ''%'' \<and>
                    \<bar>of_nat n / 100 - 100 * of_nat (connectedCalls r) / (of_nat (totalCalls r) :: rat)\<bar>
                      \<le> 1 / 200))"
proof -
  define Q :: "call \<Rightarrow> bool" where "Q = (\<lambda>c. role u = ''telecaller'' \<longrightarrow> c_user c = u_id u)"
  define t where "t = length (filter Q (calls s))"
  define c where "c = length (filter (\<lambda>x. Q x \<and> c_status x = ''connected'') (calls s))"
  define rate where "rate = (if t \<noteq> 0 then toFixed (js_mul (js_div (of_nat c) (of_nat t)) 100) 2 @ ''%'' else ''0%'')"
  define r where "r = \<lparr>totalLeads = length (filter (\<lambda>l. role u = ''telecaller'' \<longrightarrow> createdBy l = u_id u) (leads s)),
     totalCalls = t, connectedCalls = c, connectionRate = rate,
     totalTelecallers = length (filter (\<lambda>x. role x = ''telecaller'') (users s))\<rparr>"
  have run: "getDashboardStats e s u = Success 200 r"
    using assms by (simp add: getDashboardStats_def Let_def r_def rate_def t_def c_def Q_def)
  have ct: "c \<le> t" unfolding c_def t_def by (rule connected_le_total)
  have zero: "totalCalls r = 0 \<longrightarrow> connectionRate r = ''0%''"
    by (simp add: r_def rate_def)
  have pos: "\<exists>n. connectionRate r =
                      dec (n div 100) @ ''.'' @ [digit (n div 10 mod 10), digit (n mod 10)] @ ''%'' \<and>
                    \<bar>of_nat n / 100 - 100 * of_nat (connectedCalls r) / (of_nat (totalCalls r) :: rat)\<bar>
                      \<le> 1 / 200"
    if "0 < totalCalls r \<and> totalCalls r < 2 ^ 37"
  proof -
    from that have t: "0 < t" "t < 2 ^ 37" by (simp_all add: r_def)
    from connectionRate_rounded[OF t(1) ct t(2)] obtain n where
      n: "toFixed (js_mul (js_div (of_nat c) (of_nat t)) 100) 2 =
               dec (n div 100) @ ''.'' @ [digit (n div 10 mod 10), digit (n mod 10)]"
         "\<bar>of_nat n / 100 - 100 * of_nat c / (of_nat t :: rat)\<bar> \<le> 1 / 200"
      by blast
    have "connectionRate r = dec (n div 100) @ ''.'' @ [digit (n div 10 mod 10), digit (n mod 10)] @ ''%''"
      using t(1) n(1) by (simp add: r_def rate_def)
    moreover have "\<bar>of_nat n / 100 - 100 * of_nat (connectedCalls r) / (of_nat (totalCalls r) :: rat)\<bar> \<le> 1 / 200"
      using n(2) by (simp add: r_def)
    ultimately show ?thesis by blast
  qed
  show ?thesis
  proof (intro exI[of _ r] conjI)
    show "getDashboardStats e s u = Success 200 r" by (rule run)
    show "totalCalls r = 0 \<longrightarrow> connectionRate r = ''0%''" by (rule zero)
    show "0 < totalCalls r \<and> totalCalls r < 2 ^ 37 \<longrightarrow>
              (\<exists>n. connectionRate r =
                      dec (n div 100) @ ''.'' @ [digit (n div 10 mod 10), digit (n mod 10)] @ ''%'' \<and>
                    \<bar>of_nat n / 100 - 100 * of_nat (connectedCalls r) / (of_nat (totalCalls r) :: rat)\<bar>
                      \<le> 1 / 200)"
      by (rule impI) (rule pos)
  qed
qed

theorem getDashboardStats_connectionRate_witness:
  "\<not> count_throws (flt env0) \<and>
   getDashboardStats env0 store3 adm = Success 200
     \<lparr>totalLeads = 2, totalCalls = 3, connectedCalls = 1, connectionRate = ''33.33%'',
      totalTelecallers = 2\<rparr> \<and>
   getDashboardStats env0 store0 adm = Success 200
     \<lparr>totalLeads = 2, totalCalls = 0, connectedCalls = 0, connectionRate = ''0%'',
      totalTelecallers = 2\<rparr> \<and>
   (\<exists>n. ''33.33%'' = dec (n div 100) @ ''.'' @ [digit (n div 10 mod 10), digit (n mod 10)] @ ''%'' \<and>
        \<bar>of_nat n / 100 - 100 * of_nat 1 / (of_nat 3 :: rat)\<bar> \<le> 1 / 200)"
proof -
  have h: "\<not> count_throws (flt env0)" by (simp add: env0_def no_faults_def)
  have r3: "getDashboardStats env0 store3 adm = Success 200
     \<lparr>totalLeads = 2, totalCalls = 3, connectedCalls = 1, connectionRate = ''33.33%'',
      totalTelecallers = 2\<rparr>"
    by code_simp
  have r0: "getDashboardStats env0 store0 adm = Success 200
     \<lparr>totalLeads = 2, totalCalls = 0, connectedCalls = 0, connectionRate = ''0%'',
      totalTelecallers = 2\<rparr>"
    by code_simp
  from getDashboardStats_connectionRate[OF h, of store3 adm] r3
  have "\<exists>n. ''33.33%'' = dec (n div 100) @ ''.'' @ [digit (n div 10 mod 10), digit (n mod 10)] @ ''%'' \<and>
        \<bar>of_nat n / 100 - 100 * of_nat 1 / (of_nat 3 :: rat)\<bar> \<le> 1 / 200"
    by simp
  with h r3 r0 show ?thesis by simp
qed

end
